theory Spec2Isabelle
  imports Main
begin

section \<open>JavaScript values, exceptions, function values\<close>

text \<open>
  The values that travel over the bus and the message ports: the primitives and the plain
  objects and arrays that the structured clone of a message can hold. Numbers are integers
  here, with \<open>NaN\<close> kept apart because it is falsy.
\<close>

datatype jsval =
    Undefined
  | Null
  | Bool bool
  | Num int
  | NaN
  | Str string
  | Arr "jsval list"
  | Obj "(string \<times> jsval) list"

text \<open>JavaScript truthiness: \<open>!!v\<close>.\<close>

fun truthy :: "jsval \<Rightarrow> bool" where
  "truthy Undefined = False"
| "truthy Null = False"
| "truthy (Bool b) = b"
| "truthy (Num n) = (n \<noteq> 0)"
| "truthy NaN = False"
| "truthy (Str s) = (s \<noteq> [])"
| "truthy (Arr xs) = True"
| "truthy (Obj ps) = True"

definition nullish :: "jsval \<Rightarrow> bool" where
  "nullish v = (v = Undefined \<or> v = Null)"

text \<open>
  \<open>v.k\<close> for a value \<open>v\<close> that is neither \<open>undefined\<close> nor \<open>null\<close>. The code reads only the
  properties \<open>topic\<close>, \<open>payload\<close>, \<open>type\<close> and \<open>throwIfOffline\<close>; none of them exists on a
  built-in prototype, so a primitive or an array yields \<open>undefined\<close> for each.
\<close>

fun get_prop :: "jsval \<Rightarrow> string \<Rightarrow> jsval" where
  "get_prop (Obj ps) k = (case map_of ps k of Some v \<Rightarrow> v | None \<Rightarrow> Undefined)"
| "get_prop v k = Undefined"

text \<open>What a \<open>throw\<close> carries.\<close>

datatype exn =
    Error string
  | TypeError string
  | DOMException string
  | Thrown jsval

text \<open>
  Function values. \<open>Ext k\<close> is a function supplied by the application (a listener or a
  sender); its body is a parameter of the model. \<open>OnceFn k a fn\<close> is the closure
  \<open>(e) => { off(); fn(e); }\<close> that \<open>once\<close> creates: \<open>k\<close> is its identity, \<open>a\<close> the address of
  the \<open>Set\<close> its \<open>off\<close> deletes from. \<open>BridgeSender\<close> is the closure
  \<open>(data) => port?.postMessage(data)\<close> that the bridge installs.
\<close>

datatype fnval =
    Ext nat
  | OnceFn nat nat fnval
  | BridgeSender

text \<open>The closure \<open>() => { set && set.delete(fn) }\<close> returned by \<open>on\<close>.\<close>

datatype unsub = Unsub nat fnval

section \<open>Observable actions\<close>

text \<open>
  Every operation returns, besides its result and the new state, the list of actions it
  performed, in order. An emission and a call hold the actions performed inside them, so
  that what an operation does itself is told apart from what happens in a nested call.
\<close>

datatype ev =
    Emit jsval jsval "ev list"
  | Call fnval jsval "ev list" "exn option"
  | ConsoleError string exn
  | ConsoleLog string "jsval list"
  | PostWindow nat jsval jsval "nat list"
  | PortPost nat jsval
  | PortClose nat
  | PortStart nat

type_synonym ('s, 'a) js = "'s \<Rightarrow> (exn + 'a) \<times> 's \<times> ev list"

definition result_of :: "(exn + 'a) \<times> 's \<times> ev list \<Rightarrow> exn + 'a" where
  "result_of r = fst r"

definition state_of :: "(exn + 'a) \<times> 's \<times> ev list \<Rightarrow> 's" where
  "state_of r = fst (snd r)"

definition trace_of :: "(exn + 'a) \<times> 's \<times> ev list \<Rightarrow> ev list" where
  "trace_of r = snd (snd r)"

definition ret :: "'a \<Rightarrow> ('s, 'a) js" where
  "ret x = (\<lambda>s. (Inr x, s, []))"

definition throw :: "exn \<Rightarrow> ('s, 'a) js" where
  "throw e = (\<lambda>s. (Inl e, s, []))"

definition out :: "ev \<Rightarrow> ('s, unit) js" where
  "out e = (\<lambda>s. (Inr (), s, [e]))"

definition modify :: "('s \<Rightarrow> 's) \<Rightarrow> ('s, unit) js" where
  "modify f = (\<lambda>s. (Inr (), f s, []))"

text \<open>Sequencing: an exception of the first part skips the second.\<close>

definition bind_js :: "('s, 'a) js \<Rightarrow> ('a \<Rightarrow> ('s, 'b) js) \<Rightarrow> ('s, 'b) js" where
  "bind_js m f = (\<lambda>s. case m s of
      (Inl e, s1, t1) \<Rightarrow> (Inl e, s1, t1)
    | (Inr x, s1, t1) \<Rightarrow> (case f x s1 of (r, s2, t2) \<Rightarrow> (r, s2, t1 @ t2)))"

definition seq :: "('s, 'a) js \<Rightarrow> ('s, 'b) js \<Rightarrow> ('s, 'b) js" where
  "seq m n = bind_js m (\<lambda>_. n)"

fun block :: "('s, unit) js list \<Rightarrow> ('s, unit) js" where
  "block [] = ret ()"
| "block (m # ms) = seq m (block ms)"

text \<open>\<open>try { m } catch (err) { h err }\<close>.\<close>

definition try_catch :: "('s, 'a) js \<Rightarrow> (exn \<Rightarrow> ('s, 'a) js) \<Rightarrow> ('s, 'a) js" where
  "try_catch m h = (\<lambda>s. case m s of
      (Inl e, s1, t1) \<Rightarrow> (case h e s1 of (r, s2, t2) \<Rightarrow> (r, s2, t1 @ t2))
    | (Inr x, s1, t1) \<Rightarrow> (Inr x, s1, t1))"

text \<open>\<open>try { m } catch {}\<close>.\<close>

definition try_ignore :: "('s, unit) js \<Rightarrow> ('s, unit) js" where
  "try_ignore m = try_catch m (\<lambda>_. ret ())"

section \<open>State\<close>

text \<open>The \<open>iframe\<close> element the bridge owns.\<close>

record iframe =
  f_src :: string
  f_title :: string
  f_display :: string
  f_load_listener :: bool
  f_parent :: bool
  f_window :: "nat option"

text \<open>A callback handed to \<open>queueMicrotask\<close>; the bridge queues only \<open>() => { connect(); }\<close>.\<close>

datatype task = ConnectTask

text \<open>
  One state for the module variables of \<open>bus.js\<close> and the closure variables of one
  \<open>mountBusBridge\<close> call.
  \<^item> \<open>topics\<close> is \<open>bus.map\<close>: it sends a topic to a \<open>Set\<close> object, held by address, so that an
    unsubscribe closure keeps the \<open>Set\<close> it captured even after \<open>clear\<close> dropped the topic.
    Its keys are strings, the type that \<open>on\<close>, \<open>once\<close> and \<open>off\<close> declare for a topic
    (\<open>Map<string, Set<Listener>>\<close>).
  \<^item> \<open>heap a\<close> is the content of the \<open>Set\<close> at address \<open>a\<close>, in insertion order.
  \<^item> \<open>post\<close> is \<open>_post\<close>.
  \<^item> \<open>iframeEl\<close>, \<open>port\<close>, \<open>loaded\<close> are the bridge's variables; \<open>src\<close> and \<open>targetOrigin\<close>
    are the constants it destructured from its options.
  \<^item> \<open>next_addr\<close>, \<open>next_closure\<close>, \<open>next_port\<close> number the objects allocated so far;
    \<open>microtasks\<close> is the queue of \<open>queueMicrotask\<close>.
  \<^item> \<open>app\<close> is whatever state the application's own functions keep.
\<close>

record 'a world =
  topics :: "string \<rightharpoonup> nat"
  heap :: "nat \<Rightarrow> fnval list"
  next_addr :: nat
  next_closure :: nat
  post :: "fnval option"
  iframeEl :: "iframe option"
  port :: "nat option"
  loaded :: bool
  src :: string
  targetOrigin :: jsval
  next_port :: nat
  microtasks :: "task list"
  app :: 'a

text \<open>
  What the code calls but does not define: the bodies of the application's functions
  (each may change the state, act, and return or throw), and the platform.
  \<^item> \<open>url_origin u\<close> is \<open>new URL(u, window.location.href).origin\<close>, which throws on a string
    that does not parse.
  \<^item> \<open>window_post w m o\<close> tells whether \<open>postMessage(m, o, ...)\<close> on window \<open>w\<close> throws.
  \<^item> \<open>port_post\<close>, \<open>port_close\<close>, \<open>port_start\<close> tell the same of a \<open>MessagePort\<close>.
  \<^item> \<open>now\<close> is \<open>Date.now()\<close>.
\<close>

record 'a env =
  fn_body :: "nat \<Rightarrow> jsval \<Rightarrow> ('a world, unit) js"
  url_origin :: "string \<Rightarrow> exn + string"
  window_post :: "nat \<Rightarrow> jsval \<Rightarrow> jsval \<Rightarrow> exn option"
  port_post :: "nat \<Rightarrow> jsval \<Rightarrow> exn option"
  port_close :: "nat \<Rightarrow> exn option"
  port_start :: "nat \<Rightarrow> exn option"
  now :: nat

text \<open>A platform call: it throws, or it happens.\<close>

definition platform :: "exn option \<Rightarrow> ev \<Rightarrow> ('s, unit) js" where
  "platform r e = (case r of Some err \<Rightarrow> throw err | None \<Rightarrow> out e)"

section \<open>The event hub: \<open>scripts/lib/bus.js\<close>\<close>

text \<open>
  \<open>this.map.get(topic)\<close> and \<open>this.map.delete(topic)\<close> for a topic that may be any value, as
  the one \<open>emit\<close> receives from a message: a \<open>Map\<close> finds a key by identity for objects and
  arrays and by value for primitives, and the keys of \<open>bus.map\<close> are strings, so only a string
  finds one.
\<close>

definition map_get :: "(string \<rightharpoonup> nat) \<Rightarrow> jsval \<Rightarrow> nat option" where
  "map_get m topic = (case topic of Str t \<Rightarrow> m t | _ \<Rightarrow> None)"

definition map_delete :: "(string \<rightharpoonup> nat) \<Rightarrow> jsval \<Rightarrow> (string \<rightharpoonup> nat)" where
  "map_delete m topic = (case topic of Str t \<Rightarrow> m(t := None) | _ \<Rightarrow> m)"

text \<open>\<open>Set.prototype.add\<close> and \<open>Set.prototype.delete\<close> on the insertion-ordered content.\<close>

definition set_add :: "'b list \<Rightarrow> 'b \<Rightarrow> 'b list" where
  "set_add xs x = (if x \<in> set xs then xs else xs @ [x])"

definition set_delete :: "'b list \<Rightarrow> 'b \<Rightarrow> 'b list" where
  "set_delete xs x = removeAll x xs"

text \<open>
  \<^verbatim>\<open>on(topic, fn) {
    let set = this.map.get(topic);
    if (!set) { set = new Set(); this.map.set(topic, set); }
    set.add(fn);
    return () => { set && set.delete(fn); };
  }\<close>
\<close>

definition on :: "string \<Rightarrow> fnval \<Rightarrow> ('a world, unsub) js" where
  "on topic fn = (\<lambda>s. case topics s topic of
      Some a \<Rightarrow>
        (Inr (Unsub a fn), s\<lparr>heap := (heap s)(a := set_add (heap s a) fn)\<rparr>, [])
    | None \<Rightarrow>
        (let a = next_addr s in
         (Inr (Unsub a fn),
          s\<lparr>topics := (topics s)(topic \<mapsto> a),
            heap := (heap s)(a := set_add [] fn),
            next_addr := Suc a\<rparr>, [])))"

text \<open>Calling the closure that \<open>on\<close> returned.\<close>

fun call_unsub :: "unsub \<Rightarrow> ('a world, unit) js" where
  "call_unsub (Unsub a fn) = modify (\<lambda>s. s\<lparr>heap := (heap s)(a := set_delete (heap s a) fn)\<rparr>)"


text \<open>
  \<^verbatim>\<open>off(topic, fn) {
    const set = this.map.get(topic);
    set?.delete(fn);
  }\<close>
\<close>

definition off :: "string \<Rightarrow> fnval \<Rightarrow> ('a world, unit) js" where
  "off topic fn = (\<lambda>s. case topics s topic of
      None \<Rightarrow> ret () s
    | Some a \<Rightarrow> call_unsub (Unsub a fn) s)"

text \<open>
  \<^verbatim>\<open>clear(topic) {
    if (topic) this.map.delete(topic);
    else this.map.clear();
  }\<close>
\<close>

definition clear :: "jsval \<Rightarrow> ('a world, unit) js" where
  "clear topic =
     (if truthy topic then modify (\<lambda>s. s\<lparr>topics := map_delete (topics s) topic\<rparr>)
      else modify (\<lambda>s. s\<lparr>topics := Map.empty\<rparr>))"

text \<open>
  Calling a function value with one argument. The call is recorded with what happened in it
  and with the exception it ended with, if any.
\<close>

definition traced :: "fnval \<Rightarrow> jsval \<Rightarrow> ('s, unit) js \<Rightarrow> ('s, unit) js" where
  "traced fn x m = (\<lambda>s. case m s of
     (r, s1, t) \<Rightarrow> (r, s1, [Call fn x t (case r of Inl err \<Rightarrow> Some err | Inr _ \<Rightarrow> None)]))"

fun body :: "'a env \<Rightarrow> fnval \<Rightarrow> jsval \<Rightarrow> ('a world, unit) js"
and call :: "'a env \<Rightarrow> fnval \<Rightarrow> jsval \<Rightarrow> ('a world, unit) js" where
  "body env (Ext k) x = fn_body env k x"
| "body env (OnceFn k a fn) x =
     seq (call_unsub (Unsub a (OnceFn k a fn))) (call env fn x)"
| "body env BridgeSender x = (\<lambda>s. case port s of
      None \<Rightarrow> ret () s
    | Some p \<Rightarrow> platform (port_post env p x) (PortPost p x) s)"
| "call env fn x = traced fn x (body env fn x)"

text \<open>
  \<^verbatim>\<open>emit(topic, e) {
    const set = this.map.get(topic);
    if (!set || set.size === 0) return;
    for (const fn of Array.from(set)) {
      try { fn(e); } catch (err) { console.error("bus listener error", err); }
    }
  }\<close>
  \<open>emit_loop\<close> is the loop over the array that \<open>Array.from\<close> copied.
\<close>

fun emit_loop :: "'a env \<Rightarrow> fnval list \<Rightarrow> jsval \<Rightarrow> ('a world, unit) js" where
  "emit_loop env [] e = ret ()"
| "emit_loop env (fn # fns) e =
     seq (try_catch (call env fn e) (\<lambda>err. out (ConsoleError ''bus listener error'' err)))
         (emit_loop env fns e)"

definition emit_body :: "'a env \<Rightarrow> jsval \<Rightarrow> jsval \<Rightarrow> ('a world, unit) js" where
  "emit_body env topic e = (\<lambda>s. case map_get (topics s) topic of
      None \<Rightarrow> ret () s
    | Some a \<Rightarrow> if heap s a = [] then ret () s else emit_loop env (heap s a) e s)"

definition emit :: "'a env \<Rightarrow> jsval \<Rightarrow> jsval \<Rightarrow> ('a world, unit) js" where
  "emit env topic e = (\<lambda>s. case emit_body env topic e s of
     (r, s1, t) \<Rightarrow> (r, s1, [Emit topic e t]))"

text \<open>
  \<^verbatim>\<open>export function setSender(fn) {
    _post = fn;
    bus.emit("bridge:sender", { ready: !!fn });
  }\<close>
\<close>

definition setSender :: "'a env \<Rightarrow> fnval option \<Rightarrow> ('a world, unit) js" where
  "setSender env fn =
     seq (modify (\<lambda>s. s\<lparr>post := fn\<rparr>))
         (emit env (Str ''bridge:sender'') (Obj [(''ready'', Bool (fn \<noteq> None))]))"

text \<open>
  \<^verbatim>\<open>export function send(data, options) {
    if (_post) { _post(data); return true; }
    if (options?.throwIfOffline) throw new Error("bus: sender not ready");
    return false;
  }\<close>
\<close>

definition send :: "'a env \<Rightarrow> jsval \<Rightarrow> jsval \<Rightarrow> ('a world, bool) js" where
  "send env data options = (\<lambda>s. case post s of
      Some fn \<Rightarrow> seq (call env fn data) (ret True) s
    | None \<Rightarrow>
        if truthy (if nullish options then Undefined else get_prop options ''throwIfOffline'')
        then throw (Error ''bus: sender not ready'') s
        else ret False s)"


section \<open>The bridge controller: \<open>scripts/lib/bus-frame.js\<close>\<close>

text \<open>
  The options of \<open>mountBusBridge\<close>. \<open>targetOrigin\<close> is a string, \<open>null\<close> or \<open>undefined\<close>; the
  \<open>parent\<close> option is left out, the model having one document.
\<close>

record options =
  o_src :: string
  o_targetOrigin :: jsval
  o_title :: "string option"

text \<open>
  \<^verbatim>\<open>const { src, targetOrigin = undefined, parent = document.body, title = "bus-bridge" } = options;
  let iframeEl = document.createElement("iframe");
  let port = null;
  let loaded = false;
  iframeEl.src = src;
  iframeEl.title = title;
  iframeEl.style.display = "none";
  iframeEl.addEventListener("load", onIframeLoad);
  parent.appendChild(iframeEl);\<close>
  \<open>w\<close> is the window that the document gives the frame when the element is appended.
\<close>

definition mountBusBridge :: "nat \<Rightarrow> options \<Rightarrow> ('a world, unit) js" where
  "mountBusBridge w opts = modify (\<lambda>s. s\<lparr>
     iframeEl := Some \<lparr>
       f_src = o_src opts,
       f_title = (case o_title opts of None \<Rightarrow> ''bus-bridge'' | Some t \<Rightarrow> t),
       f_display = ''none'',
       f_load_listener = True,
       f_parent = True,
       f_window = Some w\<rparr>,
     port := None,
     loaded := False,
     src := o_src opts,
     targetOrigin := o_targetOrigin opts\<rparr>)"

text \<open>\<^verbatim>\<open>const origin = targetOrigin ?? new URL(src, window.location.href).origin;\<close>\<close>

definition resolve_origin :: "'a env \<Rightarrow> ('a world, jsval) js" where
  "resolve_origin env = (\<lambda>s.
     if nullish (targetOrigin s)
     then (case url_origin env (src s) of Inl err \<Rightarrow> throw err s | Inr u \<Rightarrow> ret (Str u) s)
     else ret (targetOrigin s) s)"

text \<open>\<^verbatim>\<open>try { port?.close?.(); } catch {}\<close>\<close>

definition close_port :: "'a env \<Rightarrow> ('a world, unit) js" where
  "close_port env = (\<lambda>s. case port s of
      None \<Rightarrow> ret () s
    | Some p \<Rightarrow> try_ignore (platform (port_close env p) (PortClose p)) s)"

text \<open>\<open>new MessageChannel()\<close>: two fresh ports.\<close>

definition new_channel :: "('a world, nat \<times> nat) js" where
  "new_channel = (\<lambda>s. (Inr (next_port s, Suc (next_port s)), s\<lparr>next_port := next_port s + 2\<rparr>, []))"

text \<open>
  \<^verbatim>\<open>iframeEl.contentWindow?.postMessage({ type: "connect" }, origin, [mc.port2]);\<close>
\<close>

definition post_handshake :: "'a env \<Rightarrow> jsval \<Rightarrow> nat \<Rightarrow> ('a world, unit) js" where
  "post_handshake env origin p2 = (\<lambda>s. case iframeEl s of
      None \<Rightarrow> throw (TypeError ''iframeEl is null'') s
    | Some f \<Rightarrow> (case f_window f of
        None \<Rightarrow> ret () s
      | Some w \<Rightarrow>
          platform (window_post env w (Obj [(''type'', Str ''connect'')]) origin)
                   (PostWindow w (Obj [(''type'', Str ''connect'')]) origin [p2]) s))"

text \<open>
  \<^verbatim>\<open>function connect() {
    if (!iframeEl || !loaded) return;
    const origin = targetOrigin ?? new URL(src, window.location.href).origin;
    try { port?.close?.(); } catch {}
    const mc = new MessageChannel();
    port = mc.port1;
    port.onmessage = (e) => { ... };
    try { port.start?.(); } catch {}
    try {
      iframeEl.contentWindow?.postMessage({ type: "connect" }, origin, [mc.port2]);
    } catch (err) {
      console.error("bridge handshake failed", err);
    }
    setSender((data) => port?.postMessage(data));
    bus.emit("bridge:open", { origin });
  }\<close>
  The handler assigned to \<open>port.onmessage\<close> is \<open>onmessage\<close> below.
\<close>

definition connect :: "'a env \<Rightarrow> ('a world, unit) js" where
  "connect env = (\<lambda>s.
     if iframeEl s = None \<or> \<not> loaded s then ret () s
     else bind_js (resolve_origin env) (\<lambda>origin.
       seq (close_port env)
         (bind_js new_channel (\<lambda>(p1, p2). block [
            modify (\<lambda>s. s\<lparr>port := Some p1\<rparr>),
            try_ignore (platform (port_start env p1) (PortStart p1)),
            try_catch (post_handshake env origin p2)
              (\<lambda>err. out (ConsoleError ''bridge handshake failed'' err)),
            setSender env (Some BridgeSender),
            emit env (Str ''bridge:open'') (Obj [(''origin'', origin)])]))) s)"


text \<open>\<^verbatim>\<open>function onIframeLoad() { loaded = true; connect(); }\<close>\<close>

definition onIframeLoad :: "'a env \<Rightarrow> ('a world, unit) js" where
  "onIframeLoad env = seq (modify (\<lambda>s. s\<lparr>loaded := True\<rparr>)) (connect env)"

text \<open>
  \<^verbatim>\<open>function disconnect() {
    setSender(null);
    try { port?.close?.(); } catch {}
    port = null;
    bus.emit("bridge:close", undefined);
  }\<close>
\<close>

definition disconnect :: "'a env \<Rightarrow> ('a world, unit) js" where
  "disconnect env = block [
     setSender env None,
     close_port env,
     modify (\<lambda>s. s\<lparr>port := None\<rparr>),
     emit env (Str ''bridge:close'') Undefined]"

text \<open>
  \<^verbatim>\<open>function destroy() {
    disconnect();
    if (iframeEl) {
      iframeEl.removeEventListener("load", onIframeLoad);
      iframeEl.parentElement?.removeChild(iframeEl);
      iframeEl = null;
    }
  }\<close>
  An element taken out of the document has no window any more.
\<close>

definition destroy :: "'a env \<Rightarrow> ('a world, unit) js" where
  "destroy env = seq (disconnect env) (\<lambda>s. case iframeEl s of
      None \<Rightarrow> ret () s
    | Some f \<Rightarrow> block [
        modify (\<lambda>s. s\<lparr>iframeEl := map_option (\<lambda>g. g\<lparr>f_load_listener := False\<rparr>) (iframeEl s)\<rparr>),
        modify (\<lambda>s. s\<lparr>iframeEl := map_option (\<lambda>g. g\<lparr>f_parent := False, f_window := None\<rparr>) (iframeEl s)\<rparr>),
        modify (\<lambda>s. s\<lparr>iframeEl := None\<rparr>)] s)"

text \<open>Decimal digits of a number, for \<open>"_ts=" + Date.now()\<close>.\<close>

fun show_nat :: "nat \<Rightarrow> string" where
  "show_nat n =
     (if n < 10 then [char_of (48 + n)]
      else show_nat (n div 10) @ [char_of (48 + n mod 10)])"

text \<open>The argument of \<open>update\<close>: each property is \<open>undefined\<close> when absent.\<close>

record next_options =
  n_src :: jsval
  n_targetOrigin :: jsval

text \<open>
  \<^verbatim>\<open>function update(next) {
    const needsSrcChange = typeof next.src === "string" && next.src !== src;
    const newOrigin =
      next.targetOrigin !== undefined ? next.targetOrigin : targetOrigin;
    disconnect();
    if (needsSrcChange && iframeEl) {
      iframeEl.src = next.src ?? "";
      loaded = false;
      if (next.src === src)
        iframeEl.src =
          next.src + (next.src.includes("?") ? "&" : "?") + "_ts=" + Date.now();
    }
    if (!needsSrcChange) {
      (function reconnectWithNewOrigin() {
        queueMicrotask(() => { connect(); });
      })();
    }
  }\<close>
  \<open>src\<close> and \<open>targetOrigin\<close> are constants: nothing assigns to them, and \<open>newOrigin\<close> is not
  read after it is computed. Where \<open>needsSrcChange\<close> holds, \<open>next.src\<close> is a string, which is
  the only case of \<open>set_frame_src\<close> that does anything.
\<close>

definition set_frame_src :: "'a env \<Rightarrow> jsval \<Rightarrow> ('a world, unit) js" where
  "set_frame_src env next_src = (case next_src of
      Str u \<Rightarrow> block [
        modify (\<lambda>s. s\<lparr>iframeEl := map_option (\<lambda>f. f\<lparr>f_src := u\<rparr>) (iframeEl s)\<rparr>),
        modify (\<lambda>s. s\<lparr>loaded := False\<rparr>),
        (\<lambda>s. if u = src s
             then modify (\<lambda>s. s\<lparr>iframeEl := map_option (\<lambda>f. f\<lparr>f_src :=
                    u @ (if CHR ''?'' \<in> set u then ''&'' else ''?'') @ ''_ts='' @ show_nat (now env)\<rparr>)
                    (iframeEl s)\<rparr>) s
             else ret () s)]
    | _ \<Rightarrow> ret ())"

definition update :: "'a env \<Rightarrow> next_options \<Rightarrow> ('a world, unit) js" where
  "update env next = (\<lambda>s.
     let needsSrcChange = (case n_src next of Str u \<Rightarrow> u \<noteq> src s | _ \<Rightarrow> False);
         newOrigin = (if n_targetOrigin next \<noteq> Undefined then n_targetOrigin next
                      else targetOrigin s)
     in block [
          disconnect env,
          (\<lambda>s. if needsSrcChange \<and> iframeEl s \<noteq> None
               then set_frame_src env (n_src next) s else ret () s),
          (if \<not> needsSrcChange
           then modify (\<lambda>s. s\<lparr>microtasks := microtasks s @ [ConnectTask]\<rparr>)
           else ret ())] s)"

text \<open>The event loop runs the oldest queued microtask.\<close>

definition run_microtask :: "'a env \<Rightarrow> ('a world, unit) js" where
  "run_microtask env = (\<lambda>s. case microtasks s of
      [] \<Rightarrow> ret () s
    | ConnectTask # ts \<Rightarrow> seq (modify (\<lambda>s. s\<lparr>microtasks := ts\<rparr>)) (connect env) s)"

section \<open>The channel transport\<close>

text \<open>
  The module variables \<open>chan\<close>, \<open>port1\<close> and \<open>connected\<close> of the older transport, which
  listens with \<open>window.onmessage = windowReceive\<close>.
\<close>

record transport =
  chan :: "(nat \<times> nat) option"
  port1 :: "nat option"
  connected :: bool
  t_next_port :: nat

text \<open>A \<open>MessageEvent\<close> on the window: its data, its source window (or \<open>null\<close>), its origin.\<close>

record message_event =
  ev_data :: jsval
  ev_source :: "nat option"
  ev_origin :: string

text \<open>
  \<^verbatim>\<open>function connect(win) {
    if (!connected && win) {
      chan = new MessageChannel();
      port1 = chan.port1;
      port1.onmessage = channelReceive;
      console.log('[BWO] Connecting channel to iframe as window data');
      win.postMessage('init', '*', [chan.port2]);
      connected = true;
    }
  }\<close>
\<close>

definition transport_connect :: "'a env \<Rightarrow> nat option \<Rightarrow> (transport, unit) js" where
  "transport_connect env win = (\<lambda>s. case win of
      None \<Rightarrow> ret () s
    | Some w \<Rightarrow>
        if connected s then ret () s
        else (let p = t_next_port s in block [
          modify (\<lambda>s. s\<lparr>chan := Some (p, Suc p), t_next_port := p + 2\<rparr>),
          modify (\<lambda>s. s\<lparr>port1 := Some p\<rparr>),
          out (ConsoleLog ''[BWO] Connecting channel to iframe as window data'' []),
          platform (window_post env w (Str ''init'') (Str ''*''))
                   (PostWindow w (Str ''init'') (Str ''*'') [Suc p]),
          modify (\<lambda>s. s\<lparr>connected := True\<rparr>)] s))"

text \<open>
  \<^verbatim>\<open>function windowReceive(ev) {
    console.log('[BWO] Received window data', ev.data);
    if (ev.data.type === 'init') {
      connect(ev.source);
    }
  }\<close>
  Reading \<open>.type\<close> of \<open>undefined\<close> or \<open>null\<close> throws.
\<close>

definition windowReceive :: "'a env \<Rightarrow> message_event \<Rightarrow> (transport, unit) js" where
  "windowReceive env ev =
     seq (out (ConsoleLog ''[BWO] Received window data'' [ev_data ev]))
         (if nullish (ev_data ev) then throw (TypeError ''ev.data is null or undefined'')
          else if get_prop (ev_data ev) ''type'' = Str ''init''
          then transport_connect env (ev_source ev)
          else ret ())"

section \<open>Reading the list of actions\<close>

text \<open>
  The calls an operation made itself, with their arguments, in order; the errors those
  calls threw; the errors written with \<open>console.error\<close> under a given message; the emissions
  an operation made itself. None of them looks inside a nested call or emission.
\<close>

fun calls_of :: "ev list \<Rightarrow> (fnval \<times> jsval) list" where
  "calls_of [] = []"
| "calls_of (Call fn x t r # es) = (fn, x) # calls_of es"
| "calls_of (e # es) = calls_of es"

fun thrown_of :: "ev list \<Rightarrow> exn list" where
  "thrown_of [] = []"
| "thrown_of (Call fn x t (Some err) # es) = err # thrown_of es"
| "thrown_of (e # es) = thrown_of es"

fun logged_of :: "string \<Rightarrow> ev list \<Rightarrow> exn list" where
  "logged_of m [] = []"
| "logged_of m (ConsoleError m' err # es) = (if m' = m then err # logged_of m es else logged_of m es)"
| "logged_of m (e # es) = logged_of m es"


text \<open>The listeners subscribed to a topic, in insertion order: what \<open>Array.from(set)\<close> copies.\<close>

definition listeners :: "'a world \<Rightarrow> jsval \<Rightarrow> fnval list" where
  "listeners s topic = (case map_get (topics s) topic of None \<Rightarrow> [] | Some a \<Rightarrow> heap s a)"

text \<open>
  Delivering an event to a list of listeners, as the description of \<open>emit\<close> has it: each
  listener of the list is called, once, in the order of the list, on the state that the call
  before it left; when a call throws, its error is logged and the listeners behind it are
  called all the same. The result is the last state and the actions in order.
\<close>

fun deliver :: "'a env \<Rightarrow> jsval \<Rightarrow> fnval list \<Rightarrow> 'a world \<Rightarrow> 'a world \<times> ev list" where
  "deliver env x [] s = (s, [])"
| "deliver env x (fn # fns) s =
     (case call env fn x s of (r, s1, t) \<Rightarrow>
        (case deliver env x fns s1 of (s2, t2) \<Rightarrow>
           (s2, t @ (case r of Inl err \<Rightarrow> [ConsoleError ''bus listener error'' err] | Inr _ \<Rightarrow> [])
                  @ t2)))"

text \<open>
  The states of the registry that its operations produce: two topics never share a \<open>Set\<close>,
  every \<open>Set\<close> of the map has been allocated, no \<open>Set\<close> holds a function twice, and every
  closure of \<open>once\<close> that is registered has been created.
\<close>

definition hub_ok :: "'a world \<Rightarrow> bool" where
  "hub_ok s =
     ((\<forall>t t' a. topics s t = Some a \<and> topics s t' = Some a \<longrightarrow> t = t')
    \<and> (\<forall>t a. topics s t = Some a \<longrightarrow> a < next_addr s)
    \<and> (\<forall>a. distinct (heap s a))
    \<and> (\<forall>b k a fn. OnceFn k a fn \<in> set (heap s b) \<longrightarrow> k < next_closure s))"



section \<open>Example states and environments\<close>

text \<open>The state when the modules have been loaded and no bridge is mounted.\<close>

definition init_world :: "'a \<Rightarrow> 'a world" where
  "init_world a = \<lparr>topics = Map.empty, heap = (\<lambda>_. []), next_addr = 0, next_closure = 0,
     post = None, iframeEl = None, port = None, loaded = False, src = [], targetOrigin = Undefined,
     next_port = 0, microtasks = [], app = a\<rparr>"

text \<open>
  Application functions that do nothing, a platform on which no post, close or start throws,
  and on which no URL parses.
\<close>

definition plain_env :: "'a env" where
  "plain_env = \<lparr>fn_body = (\<lambda>k x. ret ()),
     url_origin = (\<lambda>u. Inl (TypeError ''Invalid URL'')),
     window_post = (\<lambda>w m origin. None),
     port_post = (\<lambda>p d. None),
     port_close = (\<lambda>p. None),
     port_start = (\<lambda>p. None),
     now = 0\<rparr>"


text \<open>The same two subscriptions, with a counter as the state of the application.\<close>

definition two_counting :: "nat world" where
  "two_counting = state_of (seq (on ''t'' (Ext 0)) (on ''t'' (Ext 1)) (init_world 0))"

text \<open>
  \<open>Ext 0\<close> is \<open>() => { bus.on("t", Ext 2); bus.off("t", Ext 1); }\<close>, \<open>Ext 1\<close> is
  \<open>() => { n += 1; }\<close> and \<open>Ext 2\<close> is \<open>() => { n += 10; }\<close>.
\<close>

definition meddling_env :: "nat env" where
  "meddling_env = plain_env\<lparr>fn_body := (\<lambda>k x.
     if k = 0 then seq (on ''t'' (Ext 2)) (off ''t'' (Ext 1))
     else if k = 1 then modify (\<lambda>s. s\<lparr>app := app s + 1\<rparr>)
     else if k = 2 then modify (\<lambda>s. s\<lparr>app := app s + 10\<rparr>)
     else ret ())\<rparr>"

text \<open>\<open>Ext 0\<close> is \<open>() => { throw new Error("boom"); }\<close> and \<open>Ext 1\<close> is \<open>() => { n += 1; }\<close>.\<close>

definition throw_then_count_env :: "nat env" where
  "throw_then_count_env = plain_env\<lparr>fn_body := (\<lambda>k x.
     if k = 0 then throw (Error ''boom'')
     else if k = 1 then modify (\<lambda>s. s\<lparr>app := app s + 1\<rparr>)
     else ret ())\<rparr>"

text \<open>\<open>Ext 0\<close> is \<open>() => { throw new Error("boom"); }\<close>.\<close>

definition throwing_env :: "unit env" where
  "throwing_env = plain_env\<lparr>fn_body := (\<lambda>k x. if k = 0 then throw (Error ''boom'') else ret ())\<rparr>"

text \<open>The bridge's sender is installed and its port is open.\<close>

definition connected_world :: "unit world" where
  "connected_world = (init_world ())\<lparr>post := Some BridgeSender, port := Some 0\<rparr>"

text \<open>The transport before any message, and a first \<open>{ type: "init" }\<close> message from window 7.\<close>

definition init_transport :: transport where
  "init_transport = \<lparr>chan = None, port1 = None, connected = False, t_next_port = 0\<rparr>"

definition init_message :: message_event where
  "init_message = \<lparr>ev_data = Obj [(''type'', Str ''init'')], ev_source = Some 7,
     ev_origin = ''https://elsewhere.test''\<rparr>"



text \<open>
  A bridge mounted on \<open>https://a.test/frame.html\<close> with no explicit target origin, after its
  load event.
\<close>

definition a_test_env :: "unit env" where
  "a_test_env = plain_env\<lparr>url_origin := (\<lambda>u.
     if u = ''https://a.test/frame.html'' then Inr ''https://a.test''
     else Inl (TypeError ''Invalid URL''))\<rparr>"

definition connected_bridge :: "unit world" where
  "connected_bridge =
     state_of (seq (mountBusBridge 7
        \<lparr>o_src = ''https://a.test/frame.html'', o_targetOrigin = Undefined, o_title = None\<rparr>)
        (onIframeLoad a_test_env) (init_world ()))"







text \<open>
  The closure of a \<open>once\<close> call exists in a state when the call has been made: closures are
  numbered as they are created.
\<close>

fun created :: "fnval \<Rightarrow> 'a world \<Rightarrow> bool" where
  "created (OnceFn k a fn) s = (k < next_closure s)"
| "created fn s = True"



section \<open>Lemmas\<close>

text \<open>
  The emission loop is followed one listener at a time: what a call returns decides only
  whether an error is logged, never whether the loop goes on. A property of states that the
  application's functions keep, and that deleting from a \<open>Set\<close> keeps, is kept by every call
  and every emission.
\<close>

lemmas js_defs = ret_def throw_def out_def modify_def bind_js_def seq_def try_catch_def
  try_ignore_def platform_def result_of_def state_of_def trace_of_def traced_def

lemma map_get_simps [simp]:
  "map_get m (Str t) = m t"
  "map_get m Undefined = None"
  "map_get m Null = None"
  "map_get m (Bool b) = None"
  "map_get m (Num n) = None"
  "map_get m NaN = None"
  "map_get m (Arr xs) = None"
  "map_get m (Obj ps) = None"
  by (simp_all add: map_get_def)

lemma calls_of_append: "calls_of (t @ u) = calls_of t @ calls_of u"
  by (induction t rule: calls_of.induct) simp_all

lemma thrown_of_append: "thrown_of (t @ u) = thrown_of t @ thrown_of u"
  by (induction t rule: thrown_of.induct) simp_all

lemma logged_of_append: "logged_of m (t @ u) = logged_of m t @ logged_of m u"
  by (induction m t rule: logged_of.induct) simp_all

lemma call_shape:
  "\<exists>s1 t r. call env fn x s = (r, s1, [Call fn x t (case r of Inl err \<Rightarrow> Some err | Inr _ \<Rightarrow> None)])"
  by (simp add: traced_def split: prod.splits)

lemma emit_loop_step:
  "emit_loop env (fn # fns) e s =
     (case call env fn e s of (r, s1, t) \<Rightarrow>
        (case emit_loop env fns e s1 of (r2, s2, t2) \<Rightarrow>
           (r2, s2, (t @ (case r of Inl err \<Rightarrow> [ConsoleError ''bus listener error'' err] | Inr _ \<Rightarrow> [])) @ t2)))"
  by (simp add: ret_def out_def bind_js_def seq_def try_catch_def split: prod.splits sum.splits del: call.simps)


lemma emit_loop_calls: "calls_of (trace_of (emit_loop env fns e s)) = map (\<lambda>fn. (fn, e)) fns"
proof (induction fns arbitrary: s)
  case Nil
  show ?case by (simp add: js_defs)
next
  case (Cons fn fns)
  obtain s1 t r where c: "call env fn e s = (r, s1, [Call fn e t (case r of Inl err \<Rightarrow> Some err | Inr _ \<Rightarrow> None)])"
    using call_shape by blast
  obtain r2 s2 t2 where l: "emit_loop env fns e s1 = (r2, s2, t2)"
    by (cases "emit_loop env fns e s1") blast
  from Cons.IH [of s1] l have "calls_of t2 = map (\<lambda>fn. (fn, e)) fns" by (simp add: trace_of_def)
  with c l show ?case
    by (cases r) (simp_all add: emit_loop_step trace_of_def calls_of_append del: emit_loop.simps call.simps)
qed

lemma emit_loop_logged:
  "logged_of ''bus listener error'' (trace_of (emit_loop env fns e s)) = thrown_of (trace_of (emit_loop env fns e s))"
proof (induction fns arbitrary: s)
  case Nil
  show ?case by (simp add: js_defs)
next
  case (Cons fn fns)
  obtain s1 t r where c: "call env fn e s = (r, s1, [Call fn e t (case r of Inl err \<Rightarrow> Some err | Inr _ \<Rightarrow> None)])"
    using call_shape by blast
  obtain r2 s2 t2 where l: "emit_loop env fns e s1 = (r2, s2, t2)"
    by (cases "emit_loop env fns e s1") blast
  from Cons.IH [of s1] l have "logged_of ''bus listener error'' t2 = thrown_of t2" by (simp add: trace_of_def)
  with c l show ?case
    by (cases r) (simp_all add: emit_loop_step trace_of_def logged_of_append thrown_of_append del: emit_loop.simps call.simps)
qed


lemma count_list_distinct:
  "distinct xs \<Longrightarrow> count_list xs y = (if y \<in> set xs then 1 else 0)"
  by (induction xs) auto

lemma listeners_on:
  "listeners (state_of (on topic fn s)) (Str topic) = set_add (listeners s (Str topic)) fn"
  by (simp add: on_def listeners_def map_get_def state_of_def Let_def split: option.splits)


lemma traced_state: "state_of (traced fn x m s) = state_of (m s)"
  by (simp add: traced_def state_of_def split: prod.splits)

lemma call_invariant:
  assumes bodies: "\<And>k y s. P s \<Longrightarrow> P (state_of (fn_body env k y s))"
    and deletes: "\<And>s a fn. P s \<Longrightarrow> P (s\<lparr>heap := (heap s)(a := set_delete (heap s a) fn)\<rparr>)"
  shows "P s \<Longrightarrow> P (state_of (call env fn x s))"
proof (induction fn arbitrary: s)
  case (Ext k)
  then show ?case by (simp add: traced_state bodies)
next
  case (OnceFn k a fn)
  have "state_of (call env (OnceFn k a fn) x s) =
        state_of (call env fn x (s\<lparr>heap := (heap s)(a := set_delete (heap s a) (OnceFn k a fn))\<rparr>))"
    by (simp add: traced_def seq_def bind_js_def modify_def state_of_def split: prod.splits)
  with OnceFn.IH [OF deletes [OF OnceFn.prems]] show ?case by simp
next
  case BridgeSender
  then show ?case
    by (simp add: traced_def platform_def ret_def throw_def out_def state_of_def split: option.splits)
qed

lemma emit_loop_invariant:
  assumes bodies: "\<And>k y s. P s \<Longrightarrow> P (state_of (fn_body env k y s))"
    and deletes: "\<And>s a fn. P s \<Longrightarrow> P (s\<lparr>heap := (heap s)(a := set_delete (heap s a) fn)\<rparr>)"
  shows "P s \<Longrightarrow> P (state_of (emit_loop env fns x s))"
proof (induction fns arbitrary: s)
  case Nil
  then show ?case by (simp add: ret_def state_of_def)
next
  case (Cons fn fns)
  obtain r s1 t where c: "call env fn x s = (r, s1, t)"
    by (cases "call env fn x s") blast
  with call_invariant [of P env s fn x, OF bodies deletes Cons.prems] have "P s1"
    by (simp add: state_of_def)
  from Cons.IH [OF this] c show ?case
    by (cases "emit_loop env fns x s1")
       (simp add: emit_loop_step state_of_def del: emit_loop.simps call.simps)
qed



lemmas bridge_defs = connect_def disconnect_def destroy_def update_def run_microtask_def
  onIframeLoad_def mountBusBridge_def resolve_origin_def close_port_def new_channel_def
  post_handshake_def set_frame_src_def setSender_def emit_def emit_body_def

lemma connected_bridge_eval:
  "connected_bridge = (init_world ())\<lparr>
     post := Some BridgeSender,
     iframeEl := Some \<lparr>f_src = ''https://a.test/frame.html'', f_title = ''bus-bridge'',
       f_display = ''none'', f_load_listener = True, f_parent = True, f_window = Some 7\<rparr>,
     port := Some 0, loaded := True, src := ''https://a.test/frame.html'',
     targetOrigin := Undefined, next_port := 2\<rparr>"
  by (simp add: connected_bridge_def a_test_env_def plain_env_def init_world_def bridge_defs js_defs nullish_def)




lemma emit_loop_deliver:
  "emit_loop env fns x s = (Inr (), fst (deliver env x fns s), snd (deliver env x fns s))"
proof (induction fns arbitrary: s)
  case Nil
  show ?case by (simp add: ret_def)
next
  case (Cons fn fns)
  obtain r s1 t where c: "call env fn x s = (r, s1, t)"
    by (cases "call env fn x s") blast
  from Cons.IH [of s1] c show ?case
    by (simp add: emit_loop_step split: prod.splits del: emit_loop.simps call.simps)
qed

lemma emit_deliver:
  "emit env topic x s =
     (Inr (), fst (deliver env x (listeners s topic) s),
      [Emit topic x (snd (deliver env x (listeners s topic) s))])"
proof (cases "map_get (topics s) topic")
  case None
  then show ?thesis by (simp add: emit_def emit_body_def listeners_def ret_def)
next
  case (Some a)
  then show ?thesis
    by (cases "heap s a = []")
       (simp_all add: emit_def emit_body_def listeners_def ret_def emit_loop_deliver
          split: prod.splits del: emit_loop.simps)
qed

lemma deliver_calls: "calls_of (snd (deliver env x fns s)) = map (\<lambda>fn. (fn, x)) fns"
  using emit_loop_calls [of env fns x s] by (simp add: emit_loop_deliver trace_of_def)

lemma deliver_logged:
  "logged_of ''bus listener error'' (snd (deliver env x fns s)) = thrown_of (snd (deliver env x fns s))"
  using emit_loop_logged [of env fns x s] by (simp add: emit_loop_deliver trace_of_def)

lemma deliver_append:
  "deliver env x (xs @ ys) s =
     (case deliver env x xs s of (s1, t1) \<Rightarrow>
        (case deliver env x ys s1 of (s2, t2) \<Rightarrow> (s2, t1 @ t2)))"
proof (induction xs arbitrary: s)
  case Nil
  show ?case by (simp split: prod.splits)
next
  case (Cons fn fns)
  show ?case
    by (simp add: Cons.IH split: prod.splits del: call.simps)
qed

lemma deliver_invariant:
  assumes bodies: "\<And>k y s. P s \<Longrightarrow> P (state_of (fn_body env k y s))"
    and deletes: "\<And>s a fn. P s \<Longrightarrow> P (s\<lparr>heap := (heap s)(a := set_delete (heap s a) fn)\<rparr>)"
  shows "P s \<Longrightarrow> P (fst (deliver env x fns s))"
  using emit_loop_invariant [of P env s fns x, OF bodies deletes]
  by (simp add: emit_loop_deliver state_of_def)

lemma hub_ok_init: "hub_ok (init_world a)"
  by (simp add: hub_ok_def init_world_def)

lemma on_other_topics:
  assumes "hub_ok s" and "topic' \<noteq> Str t"
  shows "listeners (state_of (on t fn s)) topic' = listeners s topic'"
proof (cases topic')
  case (Str t')
  with assms(2) have ne: "t' \<noteq> t" by simp
  show ?thesis
  proof (cases "topics s t")
    case None
    with assms(1) ne Str show ?thesis
      by (auto simp: on_def listeners_def hub_ok_def state_of_def Let_def split: option.splits)
  next
    case (Some a)
    with assms(1) ne Str show ?thesis
      by (auto simp: on_def listeners_def hub_ok_def state_of_def split: option.splits)
  qed
qed (simp_all add: listeners_def)

lemma hub_ok_on:
  assumes "hub_ok s" and "\<forall>k a f. fn = OnceFn k a f \<longrightarrow> k < next_closure s"
  shows "hub_ok (state_of (on t fn s))"
proof (cases "topics s t")
  case None
  with assms show ?thesis
    unfolding hub_ok_def on_def state_of_def Let_def set_add_def
    by (auto simp: less_Suc_eq split: if_splits)
next
  case (Some a)
  with assms show ?thesis
    unfolding hub_ok_def on_def state_of_def set_add_def
    by (auto split: if_splits) blast+
qed

lemma hub_ok_distinct: "hub_ok s \<Longrightarrow> distinct (listeners s topic)"
  by (simp add: hub_ok_def listeners_def split: option.splits)

lemma two_counting_eval:
  "two_counting = (init_world 0)\<lparr>
     topics := [''t'' \<mapsto> 0],
     heap := (\<lambda>_. [])(0 := [Ext 0, Ext 1]),
     next_addr := 1\<rparr>"
  by (simp add: two_counting_def on_def init_world_def set_add_def Let_def js_defs)

lemma hub_ok_two_counting: "hub_ok two_counting"
  unfolding two_counting_def seq_def bind_js_def
  using hub_ok_on [OF hub_ok_on [OF hub_ok_init [of "0::nat"], of "Ext 0" "''t''"], of "Ext 1" "''t''"]
  by (simp add: on_def state_of_def Let_def init_world_def split: option.splits)

lemma listeners_next_closure [simp]:
  "listeners (s\<lparr>next_closure := n\<rparr>) topic = listeners s topic"
  by (simp add: listeners_def split: option.splits)


lemma created_heap [simp]: "created W (s\<lparr>heap := h\<rparr>) = created W s"
  by (cases W) simp_all

lemma created_app [simp]: "created W (s\<lparr>app := v\<rparr>) = created W s"
  by (cases W) simp_all







text \<open>
  The registry stays well formed under the operations that remove: the closure returned by
  \<open>on\<close>, \<open>off\<close> and \<open>clear\<close>; and under an emission, when the application's functions keep it
  well formed.
\<close>

lemma hub_ok_delete:
  "hub_ok s \<Longrightarrow> hub_ok (s\<lparr>heap := (heap s)(a := set_delete (heap s a) fn)\<rparr>)"
  unfolding hub_ok_def set_delete_def
  by (auto simp: distinct_removeAll) blast+

lemma hub_ok_off: "hub_ok s \<Longrightarrow> hub_ok (state_of (off t fn s))"
  using hub_ok_delete [of s _ fn]
  by (simp add: off_def js_defs split: option.splits)

lemma hub_ok_clear: "hub_ok s \<Longrightarrow> hub_ok (state_of (clear topic s))"
  unfolding hub_ok_def clear_def map_delete_def
  by (cases topic) (auto simp: js_defs split: if_splits)

lemma hub_ok_emit:
  assumes "\<And>k y s. hub_ok s \<Longrightarrow> hub_ok (state_of (fn_body env k y s))"
  shows "hub_ok s \<Longrightarrow> hub_ok (state_of (emit env topic x s))"
  using deliver_invariant [of hub_ok env s x "listeners s topic", OF assms hub_ok_delete]
  by (simp add: emit_deliver state_of_def)

section \<open>The claims\<close>

subsection \<open>C1: a handshake post that throws\<close>




subsection \<open>C2: an emission calls the listeners of its snapshot\<close>

text \<open>
  Claim C2. For every topic and event, \<open>emit(topic, x)\<close> synchronously invokes exactly the
  listeners subscribed to the topic at the moment the emission starts, each exactly once, in
  registration order. The whole result of \<open>emit\<close>, state and actions, is that of delivering
  \<open>x\<close> to the list of listeners the topic has when the emission starts: each of them is really
  called, on the state its predecessor left, whatever the listeners do to the registry while
  they run, and nothing else is called. So a listener added during the emission is not called,
  and a listener removed during the emission is called if it was in the list. \<open>on\<close> appends a
  new listener behind the ones registered before and leaves a registered one where it is, it
  leaves the listeners of every other topic as they are, and it keeps the registry well
  formed; so the order of the list is the order of registration and no listener is in it
  twice.
\<close>

theorem emit_invokes_snapshot:
  assumes "hub_ok s"
  shows "emit env topic x s =
           (Inr (), fst (deliver env x (listeners s topic) s),
            [Emit topic x (snd (deliver env x (listeners s topic) s))])
       \<and> calls_of (snd (deliver env x (listeners s topic) s)) = map (\<lambda>fn. (fn, x)) (listeners s topic)
       \<and> (\<forall>fn. count_list (map fst (calls_of (snd (deliver env x (listeners s topic) s)))) fn
                = (if fn \<in> set (listeners s topic) then 1 else 0))
       \<and> listeners (state_of (on t fn s)) (Str t) =
           (if fn \<in> set (listeners s (Str t)) then listeners s (Str t) else listeners s (Str t) @ [fn])
       \<and> (\<forall>topic'. topic' \<noteq> Str t \<longrightarrow> listeners (state_of (on t fn s)) topic' = listeners s topic')
       \<and> distinct (listeners (state_of (on t fn s)) (Str t))
       \<and> hub_ok (state_of (on t (Ext j) s))"
proof -
  let ?d = "deliver env x (listeners s topic) s"
  have 1: "emit env topic x s = (Inr (), fst ?d, [Emit topic x (snd ?d)])"
    by (rule emit_deliver)
  have 2: "calls_of (snd ?d) = map (\<lambda>fn. (fn, x)) (listeners s topic)"
    by (rule deliver_calls)
  have "map fst (calls_of (snd ?d)) = listeners s topic"
    by (simp add: 2 comp_def)
  with hub_ok_distinct [OF assms, of topic]
  have 3: "\<forall>fn. count_list (map fst (calls_of (snd ?d))) fn = (if fn \<in> set (listeners s topic) then 1 else 0)"
    by (simp add: count_list_distinct)
  have 4: "listeners (state_of (on t fn s)) (Str t) =
           (if fn \<in> set (listeners s (Str t)) then listeners s (Str t) else listeners s (Str t) @ [fn])"
    by (simp add: listeners_on set_add_def)
  have 5: "\<forall>topic'. topic' \<noteq> Str t \<longrightarrow> listeners (state_of (on t fn s)) topic' = listeners s topic'"
    using on_other_topics [OF assms] by blast
  from hub_ok_distinct [OF assms, of "Str t"]
  have 6: "distinct (listeners (state_of (on t fn s)) (Str t))"
    by (simp add: listeners_on set_add_def)
  have 7: "hub_ok (state_of (on t (Ext j) s))"
    using assms by (rule hub_ok_on) simp
  from 1 2 3 4 5 6 7 show ?thesis by blast
qed

text \<open>
  Two listeners are subscribed; the first one, while it runs, subscribes a third and
  unsubscribes the second. The emission calls the first and the second, which counts one;
  the third, which would count ten, is not called. The first and the third stay subscribed.
\<close>

theorem emit_invokes_snapshot_witness:
  "hub_ok two_counting
   \<and> listeners two_counting (Str ''t'') = [Ext 0, Ext 1]
   \<and> trace_of (emit meddling_env (Str ''t'') (Num 5) two_counting) =
       [Emit (Str ''t'') (Num 5) [Call (Ext 0) (Num 5) [] None, Call (Ext 1) (Num 5) [] None]]
   \<and> app (state_of (emit meddling_env (Str ''t'') (Num 5) two_counting)) = 1
   \<and> listeners (state_of (emit meddling_env (Str ''t'') (Num 5) two_counting)) (Str ''t'') = [Ext 0, Ext 2]"
proof -
  have ok: "hub_ok two_counting" by (rule hub_ok_two_counting)
  have l: "listeners two_counting (Str ''t'') = [Ext 0, Ext 1]"
    by (simp add: two_counting_eval listeners_def init_world_def)
  have e: "emit meddling_env (Str ''t'') (Num 5) two_counting =
      (Inr (), two_counting\<lparr>heap := (\<lambda>_. [])(0 := [Ext 0, Ext 2]), app := 1\<rparr>,
       [Emit (Str ''t'') (Num 5) [Call (Ext 0) (Num 5) [] None, Call (Ext 1) (Num 5) [] None]])"
    by (simp add: emit_def emit_body_def two_counting_eval meddling_env_def plain_env_def
        init_world_def on_def off_def set_add_def set_delete_def js_defs)
  have t: "trace_of (emit meddling_env (Str ''t'') (Num 5) two_counting) =
       [Emit (Str ''t'') (Num 5) [Call (Ext 0) (Num 5) [] None, Call (Ext 1) (Num 5) [] None]]"
    and a: "app (state_of (emit meddling_env (Str ''t'') (Num 5) two_counting)) = 1"
    unfolding e by (simp_all add: js_defs)
  have l2: "listeners (state_of (emit meddling_env (Str ''t'') (Num 5) two_counting)) (Str ''t'')
      = [Ext 0, Ext 2]"
    unfolding e by (simp add: state_of_def listeners_def two_counting_eval init_world_def)
  from ok l t a l2 emit_invokes_snapshot [OF ok, of meddling_env "Str ''t''" "Num 5" "''t''" "Ext 9" 9]
  show ?thesis by blast
qed

subsection \<open>C3: listeners subscribed with \<open>once\<close>\<close>




subsection \<open>C4: \<open>destroy\<close> called twice\<close>




subsection \<open>C5: \<open>update\<close> with a new target origin\<close>

text \<open>
  Claim C5 says that after \<open>update({ targetOrigin: o })\<close> the deferred reconnect performs the
  handshake with \<open>o\<close>. The code does not: for a bridge mounted on
  \<open>https://a.test/frame.html\<close> and connected, \<open>update({ targetOrigin: "https://b.test" })\<close>
  followed by the queued microtask posts the handshake to \<open>https://a.test\<close> and emits
  \<open>bridge:open\<close> with \<open>https://a.test\<close>.
\<close>

theorem update_target_origin_ignored:
  "trace_of (seq (update a_test_env \<lparr>n_src = Undefined, n_targetOrigin = Str ''https://b.test''\<rparr>)
                 (run_microtask a_test_env) connected_bridge) =
     [Emit (Str ''bridge:sender'') (Obj [(''ready'', Bool False)]) [],
      PortClose 0,
      Emit (Str ''bridge:close'') Undefined [],
      PortStart 2,
      PostWindow 7 (Obj [(''type'', Str ''connect'')]) (Str ''https://a.test'') [3],
      Emit (Str ''bridge:sender'') (Obj [(''ready'', Bool True)]) [],
      Emit (Str ''bridge:open'') (Obj [(''origin'', Str ''https://a.test'')]) []]"
  by (simp add: connected_bridge_eval a_test_env_def plain_env_def init_world_def bridge_defs js_defs
      nullish_def Let_def)

subsection \<open>C6: \<open>update\<close> with the current source\<close>

text \<open>
  Claim C6 says that \<open>update\<close> with a \<open>src\<close> equal to the current one forces a reload with a
  cache-busting parameter and resets the loaded flag. The code does not: for a bridge mounted
  on \<open>https://a.test/frame.html\<close> and connected, \<open>update({ src: "https://a.test/frame.html" })\<close>
  disconnects, leaves the frame's source and the loaded flag as they are, and queues a
  reconnect.
\<close>

theorem update_same_src_no_reload:
  "src connected_bridge = ''https://a.test/frame.html''
   \<and> state_of (update a_test_env \<lparr>n_src = Str ''https://a.test/frame.html'', n_targetOrigin = Undefined\<rparr>
        connected_bridge) =
       connected_bridge\<lparr>post := None, port := None, microtasks := [ConnectTask]\<rparr>
   \<and> map_option f_src (iframeEl (state_of (update a_test_env
        \<lparr>n_src = Str ''https://a.test/frame.html'', n_targetOrigin = Undefined\<rparr> connected_bridge)))
       = Some ''https://a.test/frame.html''
   \<and> loaded (state_of (update a_test_env
        \<lparr>n_src = Str ''https://a.test/frame.html'', n_targetOrigin = Undefined\<rparr> connected_bridge))"
  by (simp add: connected_bridge_eval a_test_env_def plain_env_def init_world_def bridge_defs js_defs
      Let_def)

subsection \<open>C7: \<open>send\<close>\<close>

text \<open>
  Claim C7, as amended. \<open>send(x)\<close> invokes the installed sender with \<open>x\<close> if and only if a
  sender is installed; it then returns true when the sender returns normally, and an
  exception thrown by the sender propagates to the caller of \<open>send\<close>. With no sender installed
  it invokes nothing, changes nothing, and returns false, except that it throws
  \<open>bus: sender not ready\<close> when the caller passes a truthy \<open>throwIfOffline\<close>.
\<close>

theorem send_cases:
  "(\<forall>fn. post s = Some fn \<longrightarrow>
      (\<exists>t r. trace_of (send env x opts s) = [Call fn x t r]
           \<and> result_of (send env x opts s) = (case r of None \<Rightarrow> Inr True | Some err \<Rightarrow> Inl err)))
   \<and> (post s = None \<longrightarrow>
        trace_of (send env x opts s) = []
      \<and> state_of (send env x opts s) = s
      \<and> result_of (send env x opts s) =
          (if truthy (if nullish opts then Undefined else get_prop opts ''throwIfOffline'')
           then Inl (Error ''bus: sender not ready'') else Inr False))"
proof (intro conjI allI impI)
  fix fn
  assume p: "post s = Some fn"
  obtain s1 t r where c: "call env fn x s = (r, s1, [Call fn x t (case r of Inl err \<Rightarrow> Some err | Inr _ \<Rightarrow> None)])"
    using call_shape by blast
  from p c have "trace_of (send env x opts s) = [Call fn x t (case r of Inl err \<Rightarrow> Some err | Inr _ \<Rightarrow> None)]"
    by (cases r) (simp_all add: send_def seq_def bind_js_def ret_def trace_of_def del: call.simps)
  moreover from p c have "result_of (send env x opts s) =
      (case (case r of Inl err \<Rightarrow> Some err | Inr _ \<Rightarrow> None) of None \<Rightarrow> Inr True | Some err \<Rightarrow> Inl err)"
    by (cases r) (simp_all add: send_def seq_def bind_js_def ret_def result_of_def del: call.simps)
  ultimately show "\<exists>t r. trace_of (send env x opts s) = [Call fn x t r]
           \<and> result_of (send env x opts s) = (case r of None \<Rightarrow> Inr True | Some err \<Rightarrow> Inl err)"
    by blast
qed (simp_all add: send_def js_defs)

text \<open>
  With the bridge's sender installed on an open port, \<open>send\<close> posts on the port and returns
  true; after \<open>setSender(null)\<close> it returns false, or throws with \<open>throwIfOffline\<close>.
\<close>

theorem send_cases_witness:
  "post connected_world = Some BridgeSender
   \<and> send plain_env (Num 5) Undefined connected_world
       = (Inr True, connected_world, [Call BridgeSender (Num 5) [PortPost 0 (Num 5)] None])
   \<and> post (state_of (setSender plain_env None connected_world)) = None
   \<and> result_of (send plain_env (Num 5) Undefined (state_of (setSender plain_env None connected_world)))
       = Inr False
   \<and> result_of (send plain_env (Num 5) (Obj [(''throwIfOffline'', Bool True)])
        (state_of (setSender plain_env None connected_world)))
       = Inl (Error ''bus: sender not ready'')"
proof -
  have a: "post connected_world = Some BridgeSender"
    by (simp add: connected_world_def)
  have b: "post (state_of (setSender plain_env None connected_world)) = None"
    by (simp add: setSender_def emit_def emit_body_def connected_world_def init_world_def js_defs)
  have c: "send plain_env (Num 5) Undefined connected_world
       = (Inr True, connected_world, [Call BridgeSender (Num 5) [PortPost 0 (Num 5)] None])"
    by (simp add: send_def connected_world_def init_world_def plain_env_def js_defs)
  from a b c
    send_cases [of connected_world plain_env "Num 5" Undefined]
    send_cases [of "state_of (setSender plain_env None connected_world)" plain_env "Num 5" Undefined]
    send_cases [of "state_of (setSender plain_env None connected_world)" plain_env "Num 5"
      "Obj [(''throwIfOffline'', Bool True)]"]
  show ?thesis by (simp add: nullish_def)
qed

text \<open>
  The claim as stated fails: after \<open>setSender(() => { throw new Error("boom"); })\<close> a sender
  is installed, and \<open>send(5)\<close> does not return true, it throws.
\<close>

theorem send_throwing_sender_counterexample:
  "post ((init_world ())\<lparr>post := Some (Ext 0)\<rparr>) = Some (Ext 0)
   \<and> send throwing_env (Num 5) Undefined ((init_world ())\<lparr>post := Some (Ext 0)\<rparr>)
       = (Inl (Error ''boom''), (init_world ())\<lparr>post := Some (Ext 0)\<rparr>,
          [Call (Ext 0) (Num 5) [] (Some (Error ''boom''))])"
  by (simp add: send_def throwing_env_def plain_env_def init_world_def js_defs)

subsection \<open>C8: a listener that throws\<close>

text \<open>
  Claim C8. If a listener throws during an emission, the error is caught and logged, every
  subsequent listener in that same emission still runs, and \<open>emit\<close> returns normally to its
  caller. For every behaviour of the listeners, \<open>emit\<close> returns normally, and its state and its
  actions are those of delivering the event to the listeners of the topic. Wherever a
  listener stands in that list, the listeners behind it are delivered the event on the state
  that its call left, whether it returned or threw, after the error is logged if it threw.
  The errors logged as \<open>bus listener error\<close> are the errors the calls threw, in order.
\<close>

theorem emit_survives_listener_errors:
  "result_of (emit env topic x s) = Inr ()
   \<and> state_of (emit env topic x s) = fst (deliver env x (listeners s topic) s)
   \<and> trace_of (emit env topic x s) = [Emit topic x (snd (deliver env x (listeners s topic) s))]
   \<and> calls_of (snd (deliver env x (listeners s topic) s)) = map (\<lambda>fn. (fn, x)) (listeners s topic)
   \<and> logged_of ''bus listener error'' (snd (deliver env x (listeners s topic) s))
        = thrown_of (snd (deliver env x (listeners s topic) s))
   \<and> (\<forall>before fn behind. listeners s topic = before @ fn # behind \<longrightarrow>
        deliver env x (listeners s topic) s =
          (case deliver env x before s of (s1, t1) \<Rightarrow>
             (case call env fn x s1 of (r, s2, t) \<Rightarrow>
                (case deliver env x behind s2 of (s3, t3) \<Rightarrow>
                   (s3, t1 @ t
                        @ (case r of Inl err \<Rightarrow> [ConsoleError ''bus listener error'' err] | Inr _ \<Rightarrow> [])
                        @ t3)))))"
proof -
  let ?d = "deliver env x (listeners s topic) s"
  have e: "emit env topic x s = (Inr (), fst ?d, [Emit topic x (snd ?d)])"
    by (rule emit_deliver)
  have c: "calls_of (snd ?d) = map (\<lambda>fn. (fn, x)) (listeners s topic)"
    by (rule deliver_calls)
  have l: "logged_of ''bus listener error'' (snd ?d) = thrown_of (snd ?d)"
    by (rule deliver_logged)
  have sp: "\<forall>before fn behind. listeners s topic = before @ fn # behind \<longrightarrow>
        ?d =
          (case deliver env x before s of (s1, t1) \<Rightarrow>
             (case call env fn x s1 of (r, s2, t) \<Rightarrow>
                (case deliver env x behind s2 of (s3, t3) \<Rightarrow>
                   (s3, t1 @ t
                        @ (case r of Inl err \<Rightarrow> [ConsoleError ''bus listener error'' err] | Inr _ \<Rightarrow> [])
                        @ t3))))"
    by (simp add: deliver_append split: prod.splits del: call.simps)
  from e c l sp show ?thesis
    by (simp add: result_of_def state_of_def trace_of_def del: deliver.simps)
qed

text \<open>
  The first of two listeners throws; the second, which counts, is called after the error is
  logged, and has counted one when \<open>emit\<close> returns.
\<close>

theorem emit_survives_listener_errors_witness:
  "listeners two_counting (Str ''t'') = [Ext 0, Ext 1]
   \<and> result_of (emit throw_then_count_env (Str ''t'') (Num 5) two_counting) = Inr ()
   \<and> trace_of (emit throw_then_count_env (Str ''t'') (Num 5) two_counting) =
       [Emit (Str ''t'') (Num 5)
         [Call (Ext 0) (Num 5) [] (Some (Error ''boom'')),
          ConsoleError ''bus listener error'' (Error ''boom''),
          Call (Ext 1) (Num 5) [] None]]
   \<and> app two_counting = 0
   \<and> app (state_of (emit throw_then_count_env (Str ''t'') (Num 5) two_counting)) = 1"
proof -
  have l: "listeners two_counting (Str ''t'') = [Ext 0, Ext 1]"
    by (simp add: two_counting_eval listeners_def init_world_def)
  have e: "emit throw_then_count_env (Str ''t'') (Num 5) two_counting =
      (Inr (), two_counting\<lparr>app := 1\<rparr>,
       [Emit (Str ''t'') (Num 5)
         [Call (Ext 0) (Num 5) [] (Some (Error ''boom'')),
          ConsoleError ''bus listener error'' (Error ''boom''),
          Call (Ext 1) (Num 5) [] None]])"
    by (simp add: emit_def emit_body_def two_counting_eval throw_then_count_env_def plain_env_def
        init_world_def js_defs)
  have a: "app two_counting = 0"
    by (simp add: two_counting_eval init_world_def)
  have r: "result_of (emit throw_then_count_env (Str ''t'') (Num 5) two_counting) = Inr ()"
    and t: "trace_of (emit throw_then_count_env (Str ''t'') (Num 5) two_counting) =
       [Emit (Str ''t'') (Num 5)
         [Call (Ext 0) (Num 5) [] (Some (Error ''boom'')),
          ConsoleError ''bus listener error'' (Error ''boom''),
          Call (Ext 1) (Num 5) [] None]]"
    and a': "app (state_of (emit throw_then_count_env (Str ''t'') (Num 5) two_counting)) = 1"
    unfolding e by (simp_all add: js_defs)
  from l r t a a' emit_survives_listener_errors [of throw_then_count_env "Str ''t''" "Num 5" two_counting]
  show ?thesis by blast
qed

subsection \<open>C9: the transport's handshake\<close>

text \<open>
  Claim C9, as amended. For every window message whose data is an object with a \<open>type\<close>
  property equal to \<open>"init"\<close>, whatever its origin, received while the transport is not yet
  connected and with a source window present, the transport performs its handshake (provided
  the post to the window does not throw): it creates a channel, retains the first port, posts
  \<open>'init'\<close> with the second port to the message's source window with target origin \<open>'*'\<close>, and is
  connected.
\<close>

theorem windowReceive_init:
  assumes "get_prop (ev_data ev) ''type'' = Str ''init''"
    and "\<not> connected s"
    and "ev_source ev = Some w"
    and "window_post env w (Str ''init'') (Str ''*'') = None"
  shows "result_of (windowReceive env ev s) = Inr ()
       \<and> state_of (windowReceive env ev s) =
           s\<lparr>chan := Some (t_next_port s, Suc (t_next_port s)),
             port1 := Some (t_next_port s),
             connected := True,
             t_next_port := t_next_port s + 2\<rparr>
       \<and> trace_of (windowReceive env ev s) =
           [ConsoleLog ''[BWO] Received window data'' [ev_data ev],
            ConsoleLog ''[BWO] Connecting channel to iframe as window data'' [],
            PostWindow w (Str ''init'') (Str ''*'') [Suc (t_next_port s)]]"
proof -
  from assms(1) have "\<not> nullish (ev_data ev)"
    by (cases "ev_data ev") (simp_all add: nullish_def)
  with assms show ?thesis
    by (simp add: windowReceive_def transport_connect_def Let_def js_defs)
qed

text \<open>The first \<open>{ type: "init" }\<close> message, from window 7 and from an arbitrary origin.\<close>

theorem windowReceive_init_witness:
  "get_prop (ev_data init_message) ''type'' = Str ''init''
   \<and> \<not> connected init_transport
   \<and> ev_source init_message = Some 7
   \<and> window_post (plain_env :: unit env) 7 (Str ''init'') (Str ''*'') = None
   \<and> state_of (windowReceive (plain_env :: unit env) init_message init_transport)
       = \<lparr>chan = Some (0, 1), port1 = Some 0, connected = True, t_next_port = 2\<rparr>
   \<and> PostWindow 7 (Str ''init'') (Str ''*'') [1]
       \<in> set (trace_of (windowReceive (plain_env :: unit env) init_message init_transport))"
proof -
  have a: "get_prop (ev_data init_message) ''type'' = Str ''init''" by (simp add: init_message_def)
  have b: "\<not> connected init_transport" by (simp add: init_transport_def)
  have c: "ev_source init_message = Some 7" by (simp add: init_message_def)
  have d: "window_post (plain_env :: unit env) 7 (Str ''init'') (Str ''*'') = None"
    by (simp add: plain_env_def)
  from a b c d windowReceive_init [OF a b c d] show ?thesis
    by (simp add: init_transport_def)
qed

text \<open>
  The claim as stated fails: a message whose data is the string \<open>"init"\<close> has no \<open>type\<close>
  property; the transport logs it and does nothing else. Nor does it do anything else with a
  \<open>{ type: "init" }\<close> message when it is connected already, or when the message has no source
  window.
\<close>

theorem windowReceive_string_init_counterexample:
  "windowReceive (plain_env :: unit env)
     \<lparr>ev_data = Str ''init'', ev_source = Some 7, ev_origin = ''https://a.test''\<rparr> init_transport
   = (Inr (), init_transport, [ConsoleLog ''[BWO] Received window data'' [Str ''init'']])
   \<and> windowReceive (plain_env :: unit env) init_message (init_transport\<lparr>connected := True\<rparr>)
   = (Inr (), init_transport\<lparr>connected := True\<rparr>,
      [ConsoleLog ''[BWO] Received window data'' [Obj [(''type'', Str ''init'')]]])
   \<and> windowReceive (plain_env :: unit env) (init_message\<lparr>ev_source := None\<rparr>) init_transport
   = (Inr (), init_transport,
      [ConsoleLog ''[BWO] Received window data'' [Obj [(''type'', Str ''init'')]]])"
  by (simp add: windowReceive_def transport_connect_def init_message_def init_transport_def
      nullish_def js_defs)

subsection \<open>C10: inbound messages without a topic\<close>




end
